theory Spec2Isabelle
  imports
    Complex_Main
    "HOL-Library.Product_Lexorder"
    "HOL-Library.Char_ord"
    "HOL-Library.List_Lexorder"
    "HOL-Library.AList"
begin

section \<open>Values shared by the two source files\<close>

text \<open>
  A \<open>datetime.date\<close> is the triple (year, month, day); the lexicographic order of triples
  is the order of dates. Python floats are modelled by exact reals: the model does not
  round. Python strings are lists of 8-bit characters.
\<close>

type_synonym date = "nat \<times> nat \<times> nat"

datatype error =
    ValueError string
  | TypeError
  | AttributeError
  | IndexError
  | KeyError

section \<open>project\_classes.py: the record model\<close>

subsection \<open>class Transaction\<close>

record transaction =
  Rate :: "real option"
  SuccessfulBids :: "int option"
  CompetitiveBids :: "int option"
  AveSpread :: "real option"
  Instrument :: string
  Currency :: string
  Units :: int

text \<open>\<open>Transaction.__init__\<close>: the four optional fields start as \<open>None\<close>.\<close>

definition Transaction_init :: "string \<Rightarrow> string \<Rightarrow> int \<Rightarrow> transaction" where
  "Transaction_init instrument currency units =
     \<lparr>Rate = None, SuccessfulBids = None, CompetitiveBids = None, AveSpread = None,
      Instrument = instrument, Currency = currency, Units = units\<rparr>"

subsection \<open>class Operation\<close>

record operation =
  Date :: date
  Transactions :: "transaction list"

definition Operation_init :: "date \<Rightarrow> operation" where
  "Operation_init transdate = \<lparr>Date = transdate, Transactions = []\<rparr>"

text \<open>
  \<open>AddTransaction\<close> appends a fresh Transaction and returns it. The returned object is a
  reference into the list, which the caller then mutates; the model returns the new
  Operation together with the position of the new Transaction, and \<open>with_trans\<close> is a
  mutation through such a reference (a position that \<open>AddTransaction\<close> or \<open>Transaction\<close>
  returned for this Operation).
\<close>

definition AddTransaction :: "operation \<Rightarrow> string \<Rightarrow> string \<Rightarrow> int \<Rightarrow> operation \<times> nat" where
  "AddTransaction op instrument currency unit =
     (op\<lparr>Transactions := Transactions op @ [Transaction_init instrument currency unit]\<rparr>,
      length (Transactions op))"

definition with_trans :: "nat \<Rightarrow> (transaction \<Rightarrow> transaction) \<Rightarrow> operation \<Rightarrow> operation" where
  "with_trans h f op =
     op\<lparr>Transactions := (Transactions op)[h := f (Transactions op ! h)]\<rparr>"

text \<open>The position of the first element that satisfies \<open>P\<close>: the \<open>for ... if ...: return\<close> loops.\<close>

fun first_index :: "('a \<Rightarrow> bool) \<Rightarrow> 'a list \<Rightarrow> nat option" where
  "first_index P [] = None"
| "first_index P (x # xs) = (if P x then Some 0 else map_option Suc (first_index P xs))"



definition Instruments :: "operation \<Rightarrow> string list" where
  "Instruments op = map Instrument (Transactions op)"

definition TransactionsCount :: "operation \<Rightarrow> nat" where
  "TransactionsCount op = length (Transactions op)"

text \<open>\<open>Operation.Transaction(instrument)\<close>: the first Transaction of that name, or \<open>None\<close>.\<close>

definition Transaction :: "operation \<Rightarrow> string \<Rightarrow> nat option" where
  "Transaction op instrument = first_index (\<lambda>t. Instrument t = instrument) (Transactions op)"

text \<open>
  \<open>TransactionValue\<close>. With an instrument, the loop returns at the first Transaction of
  that name; \<open>trans.SuccessfulBids * trans.Units\<close> raises TypeError while the bids are
  still \<open>None\<close>. Without one, the loop adds up the Transactions whose name starts with
  \<open>JGB\<close>.
\<close>

definition bid_value :: "transaction \<Rightarrow> error + real" where
  "bid_value tr =
     (case SuccessfulBids tr of
        None \<Rightarrow> Inl TypeError
      | Some bids \<Rightarrow> Inr (real_of_int (bids * Units tr) / 1000))"

fun value_of_first :: "string \<Rightarrow> transaction list \<Rightarrow> error + real" where
  "value_of_first instrument [] = Inr 0"
| "value_of_first instrument (tr # rest) =
     (if Instrument tr = instrument then bid_value tr
      else value_of_first instrument rest)"

fun value_total :: "real \<Rightarrow> transaction list \<Rightarrow> error + real" where
  "value_total tot [] = Inr tot"
| "value_total tot (tr # rest) =
     (if take 3 (Instrument tr) = ''JGB''
      then (case bid_value tr of
              Inl e \<Rightarrow> Inl e
            | Inr v \<Rightarrow> value_total (tot + v) rest)
      else value_total tot rest)"

definition TransactionValue :: "operation \<Rightarrow> string option \<Rightarrow> error + real" where
  "TransactionValue op instrument =
     (case instrument of
        Some name \<Rightarrow> value_of_first name (Transactions op)
      | None \<Rightarrow> value_total 0 (Transactions op))"

text \<open>\<open>TransactionRate\<close>: the stored rate of the first Transaction of that name, else 0.0.\<close>

fun rate_of_first :: "string \<Rightarrow> transaction list \<Rightarrow> real option" where
  "rate_of_first instrument [] = Some 0"
| "rate_of_first instrument (tr # rest) =
     (if Instrument tr = instrument then Rate tr
      else rate_of_first instrument rest)"

definition TransactionRate :: "operation \<Rightarrow> string \<Rightarrow> real option" where
  "TransactionRate op instrument = rate_of_first instrument (Transactions op)"

section \<open>project.py: the record builder\<close>

text \<open>
  A normalized row, as the two normalizers hand it to \<open>add_operation\<close>: the columns
  Date, Instrument, Competitive Bids, Successful Bids and Successful Yield. The bid
  columns are numbers (the normalizers fill empty cells with 0 and sum). The yield is a
  number, except that the release normalizer stores the yield of a fixed-rate row as the
  text its pattern matched.
\<close>

datatype yield_cell = YNum real | YStr string

record row =
  Date_col :: date
  Instrument_col :: string
  Competitive_Bids :: real
  Successful_Bids :: real
  Successful_Yield :: yield_cell

text \<open>A row of the notes table that \<open>clean_up_notes\<close> extracts: Maturity and Rate.\<close>

record notes_row =
  Maturity :: int
  Rate_col :: real

text \<open>Python's \<open>int(x)\<close> of a number truncates towards zero.\<close>

definition py_int :: "real \<Rightarrow> int" where
  "py_int x = (if 0 \<le> x then \<lfloor>x\<rfloor> else \<lceil>x\<rceil>)"

text \<open>
  Python's \<open>float(x)\<close>. On a number it is the number. On text it parses, and raises
  ValueError when the text is no number; the parser is the interpreter's, so it is a
  parameter \<open>parse\<close> here (\<open>None\<close> when it raises).
\<close>

definition py_float :: "(string \<Rightarrow> real option) \<Rightarrow> yield_cell \<Rightarrow> error + real" where
  "py_float parse y =
     (case y of
        YNum x \<Rightarrow> Inr x
      | YStr s \<Rightarrow> (case parse s of
                    None \<Rightarrow> Inl (ValueError ''could not convert string to float'')
                  | Some x \<Rightarrow> Inr x))"

text \<open>The first loop of \<open>add_operation\<close>: one Transaction per row, in row order.\<close>

fun add_rows :: "(string \<Rightarrow> real option) \<Rightarrow> operation \<Rightarrow> row list \<Rightarrow> error + operation" where
  "add_rows parse new_op [] = Inr new_op"
| "add_rows parse new_op (r # rest) =
     (let (currency, unit) =
            (if take 3 (Instrument_col r) = ''USD'' then (''USD'', 1) else (''JPY'', 100));
          (op1, newTrans) = AddTransaction new_op (Instrument_col r) currency unit;
          op2 = with_trans newTrans (\<lambda>t. t\<lparr>CompetitiveBids := Some (py_int (Competitive_Bids r))\<rparr>) op1;
          op3 = with_trans newTrans (\<lambda>t. t\<lparr>SuccessfulBids := Some (py_int (Successful_Bids r))\<rparr>) op2
      in case py_float parse (Successful_Yield r) of
           Inl e \<Rightarrow> Inl e
         | Inr y \<Rightarrow> add_rows parse (with_trans newTrans (\<lambda>t. t\<lparr>Rate := Some y\<rparr>) op3) rest)"

text \<open>The \<open>if maturity == 5 ... else: raise\<close> chain, which the source has twice.\<close>

definition fixed_rate_instrument :: "int \<Rightarrow> error + string" where
  "fixed_rate_instrument maturity =
     (if maturity = 5 then Inr ''JGBs: FR 3-5y''
      else if maturity = 2 then Inr ''JGBs: FR 1-3y''
      else if maturity = 10 then Inr ''JGBs: FR 5-10y''
      else if maturity = 20 then Inr ''JGBs: FR 10-25y''
      else Inl (ValueError ''Unrecognized fixed rate operation maturity''))"

text \<open>The second loop of \<open>add_operation\<close>: the rates of the fixed-rate operations.\<close>

fun add_notes :: "operation \<Rightarrow> notes_row list \<Rightarrow> error + operation" where
  "add_notes new_op [] = Inr new_op"
| "add_notes new_op (n # rest) =
     (case fixed_rate_instrument (Maturity n) of
        Inl e \<Rightarrow> Inl e
      | Inr instrument \<Rightarrow>
          (case Transaction new_op instrument of
             None \<Rightarrow> Inl (ValueError ''Unrecognized fixed rate operation maturity'')
           | Some newTrans \<Rightarrow>
               add_notes (with_trans newTrans (\<lambda>t. t\<lparr>Rate := Some (Rate_col n)\<rparr>) new_op) rest))"

definition add_operation ::
  "(string \<Rightarrow> real option) \<Rightarrow> date \<Rightarrow> row list \<Rightarrow> notes_row list option \<Rightarrow> error + operation" where
  "add_operation parse curdate df_data df_notes =
     (case add_rows parse (Operation_init curdate) df_data of
        Inl e \<Rightarrow> Inl e
      | Inr new_op \<Rightarrow>
          (case df_notes of
             None \<Rightarrow> Inr new_op
           | Some rows \<Rightarrow> add_notes new_op rows))"

section \<open>project.py: persistence\<close>









section \<open>project.py: chart data\<close>

text \<open>
  The DataFrame that \<open>get_chart_data\<close> returns: named columns, in order, each a list of
  cells. Assigning a column that exists replaces it in place (\<open>AList.update\<close>), also the
  column \<open>Date\<close> when an instrument of that name is requested.
\<close>

datatype cell = DateCell date | NumCell real | NoneCell

type_synonym frame = "(string \<times> cell list) list"

text \<open>A list comprehension whose body may raise: the first error ends it.\<close>

fun traverse :: "('a \<Rightarrow> error + 'b) \<Rightarrow> 'a list \<Rightarrow> error + 'b list" where
  "traverse f [] = Inr []"
| "traverse f (x # xs) =
     (case f x of
        Inl e \<Rightarrow> Inl e
      | Inr y \<Rightarrow> (case traverse f xs of Inl e \<Rightarrow> Inl e | Inr ys \<Rightarrow> Inr (y # ys)))"

text \<open>
  The instrument filter. \<open>list(set(inst_filter) | set(instruments))\<close> is only used for
  membership tests, so it is the set.
\<close>

definition inst_filter :: "string list \<Rightarrow> string set" where
  "inst_filter instruments =
     (if ''All'' \<in> set instruments
      then set [''JGBs: FR 5-10y'', ''JGBs: FR 1-3y'', ''JGBs: FR 3-5y'', ''JGBs: FR 10-25y'',
                ''JGBs: <1y'', ''JGBs: 1-3y'', ''JGBs: 3-5y'', ''JGBs: 5-10y'', ''JGBs: 10-25y'',
                ''JGBs: >25y'', ''JGBs: Inflation Linked''] \<union> set instruments
      else set instruments)"

text \<open>The values of one requested instrument over the selected Operations.\<close>

definition instrument_values :: "bool \<Rightarrow> operation list \<Rightarrow> string \<Rightarrow> error + cell list" where
  "instrument_values rate ops inst =
     (if rate
      then Inr (map (\<lambda>op. case TransactionRate op inst of None \<Rightarrow> NoneCell | Some r \<Rightarrow> NumCell r) ops)
      else if inst = ''All''
      then traverse
             (\<lambda>op. case TransactionValue op None of Inl e \<Rightarrow> Inl e | Inr v \<Rightarrow> Inr (NumCell v)) ops
      else traverse
             (\<lambda>op. case TransactionValue op (Some inst) of Inl e \<Rightarrow> Inl e | Inr v \<Rightarrow> Inr (NumCell v)) ops)"

text \<open>\<open>df_return[inst] = ...\<close> for each requested instrument, in order.\<close>

fun add_columns :: "frame \<Rightarrow> (string \<times> cell list) list \<Rightarrow> frame" where
  "add_columns df_return [] = df_return"
| "add_columns df_return ((inst, vals) # rest) = add_columns (AList.update inst vals df_return) rest"

text \<open>\<open>date(x.year, x.month, 1)\<close>; a cell that is not a date has no \<open>year\<close>.\<close>

definition month_start :: "cell \<Rightarrow> error + date" where
  "month_start x =
     (case x of
        DateCell (y, m, d) \<Rightarrow> Inr (y, m, 1)
      | NumCell v \<Rightarrow> Inl AttributeError
      | NoneCell \<Rightarrow> Inl AttributeError)"

text \<open>
  \<open>groupby(["Date"])\<close> followed by an aggregation and \<open>reset_index()\<close>: one row per distinct
  key, the keys ascending, each other column aggregated over the rows of the key.
  The sum of a group adds its numbers (an empty cell counts 0). The mean of a group is
  pandas' and depends on how it treats empty cells; it is the parameter \<open>group_mean\<close>
  of \<open>get_chart_data\<close>.
\<close>

definition group_sum :: "cell list \<Rightarrow> error + cell" where
  "group_sum cells = Inr (NumCell (\<Sum>c\<leftarrow>cells. case c of NumCell v \<Rightarrow> v | _ \<Rightarrow> 0))"

definition groupby_Date ::
  "(cell list \<Rightarrow> error + cell) \<Rightarrow> date list \<Rightarrow> frame \<Rightarrow> error + frame" where
  "groupby_Date agg dates columns =
     (let keys = sort (remdups dates)
      in case traverse
                (\<lambda>(name, col).
                   case traverse (\<lambda>k. agg (map snd (filter (\<lambda>(d, c). d = k) (zip dates col)))) keys of
                     Inl e \<Rightarrow> Inl e
                   | Inr col' \<Rightarrow> Inr (name, col'))
                columns of
           Inl e \<Rightarrow> Inl e
         | Inr columns' \<Rightarrow> Inr ((''Date'', map DateCell keys) # columns'))"

definition get_chart_data ::
  "(cell list \<Rightarrow> error + cell) \<Rightarrow> operation list \<Rightarrow> string list \<Rightarrow> date \<Rightarrow> date \<Rightarrow> bool \<Rightarrow> bool
     \<Rightarrow> error + frame" where
  "get_chart_data group_mean operations instruments start_date end_date rate monthly =
     (let rate = (if ''All'' \<in> set instruments then False else rate);
          ops = filter (\<lambda>op. (Date op \<ge> start_date \<and> Date op \<le> end_date) \<and>
                              list_ex (\<lambda>inst. inst \<in> inst_filter instruments) (Instruments op))
                  operations;
          ops_dates = map Date ops
      in case traverse (instrument_values rate ops) instruments of
           Inl e \<Rightarrow> Inl e
         | Inr ops_values \<Rightarrow>
             (let df_return = add_columns [(''Date'', map DateCell ops_dates)] (zip instruments ops_values)
              in if monthly
                 then (case map_of df_return ''Date'' of
                         None \<Rightarrow> Inl KeyError
                       | Some date_column \<Rightarrow>
                           (case traverse month_start date_column of
                              Inl e \<Rightarrow> Inl e
                            | Inr months \<Rightarrow>
                                groupby_Date (if rate then group_mean else group_sum) months
                                  (AList.delete ''Date'' df_return)))
                 else Inr df_return))"

section \<open>project.py: the regular expressions it uses\<close>

text \<open>
  The patterns of \<open>project.py\<close> are built from literal characters, \<open>.\<close>, \<open>[0-9]\<close>,
  concatenation, the greedy \<open>?\<close>, the greedy \<open>.+\<close>, capturing groups and \<open>$\<close>. \<open>rx\<close> is
  that fragment of Python's \<open>re\<close> syntax.
\<close>

datatype rx =
    Eps
  | Chr char
  | Dot
  | Digit
  | Seq rx rx
  | Opt rx
  | DotPlus
  | Grp nat rx
  | Eos

text \<open>A literal string, and a concatenation of several patterns.\<close>

fun lit :: "string \<Rightarrow> rx" where
  "lit [] = Eps"
| "lit (c # cs) = Seq (Chr c) (lit cs)"

fun seqs :: "rx list \<Rightarrow> rx" where
  "seqs [] = Eps"
| "seqs (r # rs) = Seq r (seqs rs)"

text \<open>
  \<open>re.IGNORECASE\<close> on the ASCII letters of these patterns: two characters match when
  their lower-case forms are equal.
\<close>

definition lower :: "char \<Rightarrow> char" where
  "lower c =
     (case map_of (zip ''ABCDEFGHIJKLMNOPQRSTUVWXYZ'' ''abcdefghijklmnopqrstuvwxyz'') c of
        None \<Rightarrow> c
      | Some l \<Rightarrow> l)"

definition chr_eq :: "bool \<Rightarrow> char \<Rightarrow> char \<Rightarrow> bool" where
  "chr_eq ignorecase p c = (if ignorecase then lower c = lower p else c = p)"

text \<open>
  What \<open>.+\<close> can leave of the input, in the order in which a backtracking matcher tries
  it: the longest run of characters other than the newline first, one character last.
\<close>

fun dot_plus :: "string \<Rightarrow> string list" where
  "dot_plus [] = []"
| "dot_plus (c # cs) = (if c = CHR 0x0A then [] else dot_plus cs @ [cs])"

text \<open>
  The matcher. A state is the groups captured so far and the input that is left;
  \<open>matches\<close> lists the states in which the pattern can end, in the order in which
  Python's backtracking matcher reaches them, so the head of the list is the match that
  \<open>re\<close> reports. A greedy \<open>?\<close> tries its body before the empty match; a group records
  the text its body consumed; \<open>$\<close> holds at the end of the input and before a final
  newline.
\<close>

type_synonym groups = "nat \<Rightarrow> string option"

fun matches :: "bool \<Rightarrow> rx \<Rightarrow> groups \<times> string \<Rightarrow> (groups \<times> string) list" where
  "matches ic Eps st = [st]"
| "matches ic (Chr p) (g, s) =
     (case s of [] \<Rightarrow> [] | c # cs \<Rightarrow> if chr_eq ic p c then [(g, cs)] else [])"
| "matches ic Dot (g, s) =
     (case s of [] \<Rightarrow> [] | c # cs \<Rightarrow> if c = CHR 0x0A then [] else [(g, cs)])"
| "matches ic Digit (g, s) =
     (case s of [] \<Rightarrow> [] | c # cs \<Rightarrow> if c \<in> set ''0123456789'' then [(g, cs)] else [])"
| "matches ic (Seq a b) st = concat (map (matches ic b) (matches ic a st))"
| "matches ic (Opt a) st = matches ic a st @ [st]"
| "matches ic DotPlus (g, s) = map (Pair g) (dot_plus s)"
| "matches ic (Grp n a) (g, s) =
     map (\<lambda>(g', s'). (g'(n := Some (take (length s - length s') s)), s')) (matches ic a (g, s))"
| "matches ic Eos (g, s) = (if s = [] \<or> s = [CHR 0x0A] then [(g, s)] else [])"

text \<open>\<open>re.match\<close>: the pattern against the start of the string; the groups, or \<open>None\<close>.\<close>

definition re_match :: "bool \<Rightarrow> rx \<Rightarrow> string \<Rightarrow> groups option" where
  "re_match ic r s =
     (case matches ic r (\<lambda>n. None, s) of
        [] \<Rightarrow> None
      | (g, rest) # others \<Rightarrow> Some g)"

text \<open>Whether \<open>re.findall\<close> finds anything: the pattern matches at some position.\<close>

fun re_found :: "bool \<Rightarrow> rx \<Rightarrow> string \<Rightarrow> bool" where
  "re_found ic r [] = (matches ic r (\<lambda>n. None, []) \<noteq> [])"
| "re_found ic r (c # cs) = (matches ic r (\<lambda>n. None, c # cs) \<noteq> [] \<or> re_found ic r cs)"

section \<open>project.py: the instrument classifier\<close>

text \<open>
  The ordered dictionary \<open>searches\<close> of \<open>get_short_name\<close>. Its keys are literal texts (the
  source escapes their parentheses for \<open>re\<close>).
\<close>

definition searches :: "(rx \<times> string) list" where
  "searches =
     [(lit ''Outright purchases of Corporate Bonds'', ''Corporate Bonds''),
      (lit ''Outright purchases of CP'', ''CP''),
      (lit ''Outright purchases of T-Bills'', ''TB''),
      (lit ''inflation-indexed bonds'', ''JGBs: Inflation Linked''),
      (lit ''floating-rate bonds'', ''JGBs: Floating Rate''),
      (lit ''US Dollar Funds-Supplying Operations against Pooled Collateral (Sales of JGSs under repurchase agreements)'',
       ''USD: JGS PC''),
      (lit ''US Dollar Funds-Supplying Operations against Pooled Collateral'', ''USD: PC''),
      (lit ''Funds-Supplying Operations against Pooled Collateral (at All Offices)'',
       ''Funds-Supplying Operations'')]"

text \<open>The loop over \<open>searches.items()\<close>: the value of the first key found in the name.\<close>

fun first_found :: "(rx \<times> string) list \<Rightarrow> string \<Rightarrow> string option" where
  "first_found [] long_name = None"
| "first_found ((s, r) # rest) long_name =
     (if re_found True s long_name then Some r else first_found rest long_name)"

text \<open>
  \<open>re_txt\<close>:
  \<^verbatim>\<open>maturity of (?:more than ([0-9]?[0-9]) years?\)?)?(?:(?:.+)?up to ([0-9]?[0-9]) years?\))?\<close>
\<close>

definition re_txt :: rx where
  "re_txt =
     seqs [lit ''maturity of '',
           Opt (seqs [lit ''more than '', Grp 1 (seqs [Opt Digit, Digit]), lit '' year'',
                      Opt (Chr CHR ''s''), Opt (Chr CHR '')'')]),
           Opt (seqs [Opt DotPlus, lit ''up to '', Grp 2 (seqs [Opt Digit, Digit]), lit '' year'',
                      Opt (Chr CHR ''s''), Chr CHR '')''])]"

text \<open>
  The pattern of one turn of the loop over \<open>["fixed", "floating"]\<close>, with the \<open>.+\<close> and
  the blank that \<open>re.match\<close> is given in front, and the text the name starts with.
\<close>

definition maturity_rx :: "bool \<Rightarrow> rx" where
  "maturity_rx fixed =
     (if fixed
      then seqs [DotPlus, lit '' '', lit ''(fixed-rate method) '', DotPlus, lit '' '', re_txt]
      else seqs [DotPlus, lit '' '', re_txt])"

definition out_txt :: "bool \<Rightarrow> string" where
  "out_txt fixed = (if fixed then ''JGBs: '' @ ''FR '' else ''JGBs: '')"

text \<open>
  The name built from a match of the maturity pattern. Both groups are optional in the
  pattern; when neither took part in the match, the first branch concatenates \<open>None\<close>
  to a string, which raises TypeError.
\<close>

definition maturity_name :: "bool \<Rightarrow> groups \<Rightarrow> error + string" where
  "maturity_name fixed maturity_rate =
     (case maturity_rate 2 of
        None \<Rightarrow>
          (case maturity_rate 1 of
             None \<Rightarrow> Inl TypeError
           | Some lower_bound \<Rightarrow> Inr (out_txt fixed @ ''>'' @ lower_bound @ ''y''))
      | Some upper_bound \<Rightarrow>
          (case maturity_rate 1 of
             None \<Rightarrow> Inr (out_txt fixed @ ''<'' @ upper_bound @ ''y'')
           | Some lower_bound \<Rightarrow> Inr (out_txt fixed @ lower_bound @ ''-'' @ upper_bound @ ''y'')))"

text \<open>The pattern for the securities lending of the morning and of the afternoon.\<close>

definition repo_rx :: rx where
  "repo_rx =
     seqs [DotPlus, lit '' (Sales of JGSs under repurchase agreements) /offered in the '',
           Grp 1 DotPlus, lit ''/'', DotPlus]"

definition get_short_name :: "string \<Rightarrow> error + string" where
  "get_short_name long_name =
     (case first_found searches long_name of
        Some r \<Rightarrow> Inr r
      | None \<Rightarrow>
          (case re_match True (maturity_rx True) long_name of
             Some maturity_rate \<Rightarrow> maturity_name True maturity_rate
           | None \<Rightarrow>
               (case re_match True (maturity_rx False) long_name of
                  Some maturity_rate \<Rightarrow> maturity_name False maturity_rate
                | None \<Rightarrow>
                    (case re_match True repo_rx long_name of
                       Some maturity_rate \<Rightarrow>
                         (if maturity_rate 1 = Some ''morning'' then Inr ''Sec. lending: am''
                          else if maturity_rate 1 = Some ''afternoon'' then Inr ''Sec. lending: pm''
                          else Inl (ValueError ''Expected morning / afternoon flag not found''))
                     | None \<Rightarrow> Inl (ValueError (''Imstrument not recognized: '' @ long_name))))))"

section \<open>project.py: the source normalizers\<close>

text \<open>
  The tables that pandas reads from the web page and from the spreadsheet. A cell holds
  a Python int, a float, a text, a datetime, or nothing (NaN). A table is rectangular:
  \<open>n_columns\<close> is its \<open>shape[1]\<close>, and a row that is shorter reads as empty cells.
\<close>

datatype pyval = IntV int | FloatV real | StrV string | DatetimeV date | NaNV

record table =
  n_columns :: nat
  table_rows :: "pyval list list"

definition cell_at :: "pyval list \<Rightarrow> nat \<Rightarrow> pyval" where
  "cell_at r k = (if k < length r then r ! k else NaNV)"

text \<open>
  A cell of a number column after \<open>fillna(0)\<close>, as \<open>sum()\<close> reads it. The number columns
  of the source's tables hold numbers and empty cells; the model raises TypeError on
  any other cell.
\<close>

definition number_of :: "pyval \<Rightarrow> error + real" where
  "number_of v =
     (case v of
        IntV i \<Rightarrow> Inr (real_of_int i)
      | FloatV x \<Rightarrow> Inr x
      | NaNV \<Rightarrow> Inr 0
      | StrV s \<Rightarrow> Inl TypeError
      | DatetimeV d \<Rightarrow> Inl TypeError)"


definition numbers_of :: "pyval \<Rightarrow> pyval \<Rightarrow> pyval \<Rightarrow> error + real \<times> real \<times> real" where
  "numbers_of a b c =
     (case number_of a of
        Inl e \<Rightarrow> Inl e
      | Inr x \<Rightarrow>
          (case number_of b of
             Inl e \<Rightarrow> Inl e
           | Inr y \<Rightarrow> (case number_of c of Inl e \<Rightarrow> Inl e | Inr z \<Rightarrow> Inr (x, y, z))))"

text \<open>
  \<open>groupby(keys)\<close>: the distinct keys in ascending order, each with its rows in their
  original order.
\<close>

definition groupby :: "('a \<Rightarrow> 'k::linorder) \<Rightarrow> 'a list \<Rightarrow> ('k \<times> 'a list) list" where
  "groupby key rows = map (\<lambda>k. (k, filter (\<lambda>r. key r = k) rows)) (sort (remdups (map key rows)))"

subsection \<open>clean\_up\_data: the daily page\<close>

text \<open>\<open>get_short_name\<close> on a cell; \<open>re\<close> raises TypeError on a cell that is no text.\<close>

definition short_name_of :: "pyval \<Rightarrow> error + string" where
  "short_name_of v =
     (case v of
        StrV long_name \<Rightarrow> get_short_name long_name
      | IntV i \<Rightarrow> Inl TypeError
      | FloatV x \<Rightarrow> Inl TypeError
      | DatetimeV d \<Rightarrow> Inl TypeError
      | NaNV \<Rightarrow> Inl TypeError)"

text \<open>
  \<open>clean_up_data\<close>: the columns 0, 1, 2 and 5; the short name of every row; then
  \<open>fillna(0)\<close> and \<open>groupby("Instrument").sum()\<close>, which adds up all three number columns
  of a group, the yield column as well; then the date.
\<close>

definition clean_up_data :: "table \<Rightarrow> date \<Rightarrow> error + row list" where
  "clean_up_data df_data date =
     (if n_columns df_data < 6 then Inl KeyError
      else
        case traverse (\<lambda>r. short_name_of (cell_at r 0)) (table_rows df_data) of
          Inl e \<Rightarrow> Inl e
        | Inr names \<Rightarrow>
            (case traverse (\<lambda>r. numbers_of (cell_at r 1) (cell_at r 2) (cell_at r 5))
                    (table_rows df_data) of
               Inl e \<Rightarrow> Inl e
             | Inr numbers \<Rightarrow>
                 Inr (map (\<lambda>(instrument, grp).
                             \<lparr>Date_col = date, Instrument_col = instrument,
                              Competitive_Bids = (\<Sum>(n, c, s, y)\<leftarrow>grp. c),
                              Successful_Bids = (\<Sum>(n, c, s, y)\<leftarrow>grp. s),
                              Successful_Yield = YNum (\<Sum>(n, c, s, y)\<leftarrow>grp. y)\<rparr>)
                        (groupby fst (zip names numbers)))))"

subsection \<open>get\_excel\_data: the monthly release\<close>

















section \<open>Properties of the record model\<close>

subsection \<open>Shared lemmas\<close>

lemma map_update_same:
  "\<forall>t. g (f t) = g t \<Longrightarrow> map g (xs[h := f (xs ! h)]) = map g xs"
  by (induction xs arbitrary: h) (auto split: nat.splits)

lemma Instruments_with_trans:
  "\<forall>t. Instrument (f t) = Instrument t \<Longrightarrow> Instruments (with_trans h f op) = Instruments op"
  by (simp add: with_trans_def Instruments_def map_update_same)

lemma Instruments_AddTransaction:
  "Instruments (fst (AddTransaction op i c u)) = Instruments op @ [i]"
  by (simp add: AddTransaction_def Instruments_def Transaction_init_def)



lemma first_index_None_iff:
  "first_index P xs = None \<longleftrightarrow> (\<forall>x\<in>set xs. \<not> P x)"
  by (induction xs) auto

lemma Transaction_None_iff: "Transaction op nm = None \<longleftrightarrow> nm \<notin> set (Instruments op)"
  by (auto simp: Transaction_def Instruments_def first_index_None_iff)

subsection \<open>One Transaction per instrument\<close>




subsection \<open>TransactionValue\<close>

lemma value_of_first_find:
  "value_of_first i ts =
     (case find (\<lambda>t. Instrument t = i) ts of None \<Rightarrow> Inr 0 | Some t \<Rightarrow> bid_value t)"
  by (induction ts) auto

lemma value_total_sum:
  "\<forall>t\<in>set ts. take 3 (Instrument t) = ''JGB'' \<longrightarrow> SuccessfulBids t \<noteq> None \<Longrightarrow>
   value_total a ts =
     Inr (a + (\<Sum>t\<leftarrow>filter (\<lambda>t. take 3 (Instrument t) = ''JGB'') ts.
                 real_of_int (the (SuccessfulBids t) * Units t) / 1000))"
  by (induction ts arbitrary: a) (auto simp: bid_value_def)

lemma value_total_unset:
  "\<exists>t\<in>set ts. take 3 (Instrument t) = ''JGB'' \<and> SuccessfulBids t = None \<Longrightarrow>
   value_total a ts = Inl TypeError"
  by (induction ts arbitrary: a) (auto simp: bid_value_def split: option.splits sum.splits)

text \<open>
  C7, as the claim states it, fails: a Transaction of the instrument exists, but its
  successful bids were never set (the state \<open>AddTransaction\<close> leaves it in), and
  \<open>TransactionValue\<close> raises TypeError instead of returning a value, with or without an
  instrument argument.
\<close>

theorem TransactionValue_unset_bids_counterexample:
  "TransactionValue (fst (AddTransaction (Operation_init (2023, 2, 20)) ''JGBs: 5-10y'' ''JPY'' 100))
     (Some ''JGBs: 5-10y'') = Inl TypeError
   \<and> TransactionValue (fst (AddTransaction (Operation_init (2023, 2, 20)) ''JGBs: 5-10y'' ''JPY'' 100))
     None = Inl TypeError"
  by (simp add: TransactionValue_def AddTransaction_def Operation_init_def Transaction_init_def
      bid_value_def)

text \<open>
  C7, amended. With an instrument, \<open>TransactionValue\<close> looks at the first Transaction of
  that name: it returns successful bids \<times> units / 1000 when the bids are set, raises
  TypeError when they are not, and returns 0.0 when there is no such Transaction.
  Without an instrument it returns the sum of successful bids \<times> units / 1000 over exactly
  the Transactions whose name starts with \<open>JGB\<close> when all of those have their bids set,
  and raises TypeError when one of them has not.
\<close>

theorem TransactionValue_first_match_and_total:
  "TransactionValue op (Some instrument) =
     (case find (\<lambda>t. Instrument t = instrument) (Transactions op) of
        None \<Rightarrow> Inr 0
      | Some t \<Rightarrow>
          (case SuccessfulBids t of
             None \<Rightarrow> Inl TypeError
           | Some bids \<Rightarrow> Inr (real_of_int (bids * Units t) / 1000)))
   \<and> ((\<forall>t\<in>set (Transactions op). take 3 (Instrument t) = ''JGB'' \<longrightarrow> SuccessfulBids t \<noteq> None) \<longrightarrow>
        TransactionValue op None =
          Inr (\<Sum>t\<leftarrow>filter (\<lambda>t. take 3 (Instrument t) = ''JGB'') (Transactions op).
                 real_of_int (the (SuccessfulBids t) * Units t) / 1000))
   \<and> ((\<exists>t\<in>set (Transactions op). take 3 (Instrument t) = ''JGB'' \<and> SuccessfulBids t = None) \<longrightarrow>
        TransactionValue op None = Inl TypeError)"
proof (intro conjI impI)
  show "TransactionValue op (Some instrument) =
     (case find (\<lambda>t. Instrument t = instrument) (Transactions op) of
        None \<Rightarrow> Inr 0
      | Some t \<Rightarrow>
          (case SuccessfulBids t of
             None \<Rightarrow> Inl TypeError
           | Some bids \<Rightarrow> Inr (real_of_int (bids * Units t) / 1000)))"
    by (simp add: TransactionValue_def value_of_first_find bid_value_def split: option.splits)
next
  assume "\<forall>t\<in>set (Transactions op). take 3 (Instrument t) = ''JGB'' \<longrightarrow> SuccessfulBids t \<noteq> None"
  from value_total_sum[OF this, of 0]
  show "TransactionValue op None =
          Inr (\<Sum>t\<leftarrow>filter (\<lambda>t. take 3 (Instrument t) = ''JGB'') (Transactions op).
                 real_of_int (the (SuccessfulBids t) * Units t) / 1000)"
    by (simp add: TransactionValue_def)
next
  assume "\<exists>t\<in>set (Transactions op). take 3 (Instrument t) = ''JGB'' \<and> SuccessfulBids t = None"
  from value_total_unset[OF this, of 0]
  show "TransactionValue op None = Inl TypeError"
    by (simp add: TransactionValue_def)
qed

text \<open>
  The scenario of the claim: one Transaction \<open>JGBs: 5-10y\<close> with successful bids 200 and
  units 100 is worth 200 \<times> 100 / 1000 = 20.0, under its name and in the JGB total; an
  instrument that is not there is worth 0.0.
\<close>

theorem TransactionValue_first_match_and_total_witness:
  "TransactionValue
     \<lparr>Date = (2023, 2, 20),
      Transactions = [(Transaction_init ''JGBs: 5-10y'' ''JPY'' 100)\<lparr>SuccessfulBids := Some 200\<rparr>]\<rparr>
     (Some ''JGBs: 5-10y'') = Inr 20
   \<and> TransactionValue
     \<lparr>Date = (2023, 2, 20),
      Transactions = [(Transaction_init ''JGBs: 5-10y'' ''JPY'' 100)\<lparr>SuccessfulBids := Some 200\<rparr>]\<rparr>
     None = Inr 20
   \<and> TransactionValue
     \<lparr>Date = (2023, 2, 20),
      Transactions = [(Transaction_init ''JGBs: 5-10y'' ''JPY'' 100)\<lparr>SuccessfulBids := Some 200\<rparr>]\<rparr>
     (Some ''CP'') = Inr 0"
  using TransactionValue_first_match_and_total
    [of "\<lparr>Date = (2023, 2, 20),
          Transactions = [(Transaction_init ''JGBs: 5-10y'' ''JPY'' 100)\<lparr>SuccessfulBids := Some 200\<rparr>]\<rparr>"
        "''JGBs: 5-10y''"]
    TransactionValue_first_match_and_total
    [of "\<lparr>Date = (2023, 2, 20),
          Transactions = [(Transaction_init ''JGBs: 5-10y'' ''JPY'' 100)\<lparr>SuccessfulBids := Some 200\<rparr>]\<rparr>"
        "''CP''"]
  by (simp add: Transaction_init_def)

section \<open>Properties of the record builder\<close>

lemma Instruments_add_rows:
  "add_rows parse op rows = Inr op' \<Longrightarrow> Instruments op' = Instruments op @ map Instrument_col rows"
proof (induction rows arbitrary: op)
  case Nil then show ?case by simp
next
  case (Cons r rows)
  obtain c u where cu: "(if take 3 (Instrument_col r) = ''USD'' then (''USD'', 1::int) else (''JPY'', 100)) = (c, u)"
    by (cases "take 3 (Instrument_col r) = ''USD''") auto
  obtain op1 h where a: "AddTransaction op (Instrument_col r) c u = (op1, h)" by (cases "AddTransaction op (Instrument_col r) c u")
  have i1: "Instruments op1 = Instruments op @ [Instrument_col r]"
    using Instruments_AddTransaction[of op "Instrument_col r" c u] a by simp
  from Cons.prems obtain y where
    rec: "add_rows parse (with_trans h (\<lambda>t. t\<lparr>Rate := Some y\<rparr>)
            (with_trans h (\<lambda>t. t\<lparr>SuccessfulBids := Some (py_int (Successful_Bids r))\<rparr>)
              (with_trans h (\<lambda>t. t\<lparr>CompetitiveBids := Some (py_int (Competitive_Bids r))\<rparr>) op1))) rows = Inr op'"
    using cu a by (auto split: sum.splits if_splits)
  from Cons.IH[OF rec] show ?case
    by (simp add: Instruments_with_trans i1)
qed

lemma rate_of_first_update:
  "first_index (\<lambda>t. Instrument t = nm) ts = Some h \<Longrightarrow>
   rate_of_first nm' (ts[h := (ts ! h)\<lparr>Rate := Some r\<rparr>]) = (if nm' = nm then Some r else rate_of_first nm' ts)"
proof (induction ts arbitrary: h)
  case Nil then show ?case by simp
next
  case (Cons t ts)
  show ?case
  proof (cases "Instrument t = nm")
    case True
    with Cons.prems have "h = 0" by simp
    with True show ?thesis by simp
  next
    case False
    with Cons.prems obtain h' where h: "h = Suc h'" "first_index (\<lambda>t. Instrument t = nm) ts = Some h'" by auto
    with Cons.IH[OF h(2)] False show ?thesis by auto
  qed
qed

lemma TransactionRate_set_rate:
  "Transaction op nm = Some h \<Longrightarrow>
   TransactionRate (with_trans h (\<lambda>t. t\<lparr>Rate := Some r\<rparr>) op) nm' = (if nm' = nm then Some r else TransactionRate op nm')"
  by (simp add: Transaction_def TransactionRate_def with_trans_def rate_of_first_update)

lemma add_notes_fail:
  "\<exists>n\<in>set ns. \<not> (\<exists>nm. fixed_rate_instrument (Maturity n) = Inr nm \<and> nm \<in> set (Instruments op)) \<Longrightarrow>
   add_notes op ns = Inl (ValueError ''Unrecognized fixed rate operation maturity'')"
proof (induction ns arbitrary: op)
  case Nil then show ?case by simp
next
  case (Cons n ns)
  show ?case
  proof (cases "fixed_rate_instrument (Maturity n)")
    case (Inl e)
    then have "e = ValueError ''Unrecognized fixed rate operation maturity''"
      by (auto simp: fixed_rate_instrument_def split: if_splits)
    with Inl show ?thesis by simp
  next
    case (Inr nm)
    show ?thesis
    proof (cases "Transaction op nm")
      case None with Inr show ?thesis by simp
    next
      case (Some h)
      then have ok: "(\<exists>nm. fixed_rate_instrument (Maturity n) = Inr nm \<and> nm \<in> set (Instruments op))" using Inr Transaction_None_iff[of op nm] by auto
      with Cons.prems have "\<exists>m\<in>set ns. \<not> (\<exists>nm. fixed_rate_instrument (Maturity m) = Inr nm \<and> nm \<in> set (Instruments op))" by auto
      then have "\<exists>m\<in>set ns. \<not> (\<exists>nm. fixed_rate_instrument (Maturity m) = Inr nm \<and> nm \<in> set (Instruments (with_trans h (\<lambda>t. t\<lparr>Rate := Some (Rate_col n)\<rparr>) op)))"
        by (simp add: Instruments_with_trans)
      from Cons.IH[OF this] Inr Some show ?thesis by simp
    qed
  qed
qed

lemma add_notes_ok:
  "\<forall>n\<in>set ns. (\<exists>nm. fixed_rate_instrument (Maturity n) = Inr nm \<and> nm \<in> set (Instruments op)) \<Longrightarrow>
   \<exists>op'. add_notes op ns = Inr op' \<and> Instruments op' = Instruments op \<and>
     (\<forall>nm. TransactionRate op' nm =
        (case filter (\<lambda>m. fixed_rate_instrument (Maturity m) = Inr nm) ns of
           [] \<Rightarrow> TransactionRate op nm
         | l \<Rightarrow> Some (Rate_col (last l))))"
proof (induction ns arbitrary: op)
  case Nil then show ?case by simp
next
  case (Cons n ns)
  from Cons.prems obtain nm where nm: "fixed_rate_instrument (Maturity n) = Inr nm" "nm \<in> set (Instruments op)"
    by auto
  then obtain h where h: "Transaction op nm = Some h" using Transaction_None_iff[of op nm] by (cases "Transaction op nm") auto
  let ?op1 = "with_trans h (\<lambda>t. t\<lparr>Rate := Some (Rate_col n)\<rparr>) op"
  have i1: "Instruments ?op1 = Instruments op" by (simp add: Instruments_with_trans)
  with Cons.prems have "\<forall>m\<in>set ns. (\<exists>nm. fixed_rate_instrument (Maturity m) = Inr nm \<and> nm \<in> set (Instruments ?op1))" by simp
  from Cons.IH[OF this] obtain op' where op': "add_notes ?op1 ns = Inr op'" "Instruments op' = Instruments ?op1"
    "\<forall>nm'. TransactionRate op' nm' =
        (case filter (\<lambda>m. fixed_rate_instrument (Maturity m) = Inr nm') ns of
           [] \<Rightarrow> TransactionRate ?op1 nm'
         | l \<Rightarrow> Some (Rate_col (last l)))" by blast
  have "add_notes op (n # ns) = Inr op'" using nm h op'(1) by simp
  moreover have "Instruments op' = Instruments op" using op'(2) i1 by simp
  moreover have "\<forall>nm'. TransactionRate op' nm' =
        (case filter (\<lambda>m. fixed_rate_instrument (Maturity m) = Inr nm') (n # ns) of
           [] \<Rightarrow> TransactionRate op nm'
         | l \<Rightarrow> Some (Rate_col (last l)))"
  proof
    fix nm'
    show "TransactionRate op' nm' =
        (case filter (\<lambda>m. fixed_rate_instrument (Maturity m) = Inr nm') (n # ns) of
           [] \<Rightarrow> TransactionRate op nm'
         | l \<Rightarrow> Some (Rate_col (last l)))"
      using op'(3)[rule_format, of nm'] nm(1) TransactionRate_set_rate[OF h, of "Rate_col n" nm']
      by (auto split: list.splits)
  qed
  ultimately show ?case by blast
qed

lemma fixed_rate_instrument_inj:
  "fixed_rate_instrument a = Inr nm \<Longrightarrow> fixed_rate_instrument b = Inr nm \<longleftrightarrow> b = a"
  by (auto simp: fixed_rate_instrument_def split: if_splits)


text \<open>
  C5. The year count of an annotation maps 2, 5, 10 and 20 to the four fixed-rate
  names and anything else to an error. When \<open>add_operation\<close> succeeds on annotations,
  every annotation has one of the four year counts, its name is the instrument of one
  of the day's rows, and the (first) Transaction of that name holds the rate of the last
  annotation with that year count. When the rows themselves build, an annotation with
  another year count, or whose name is not among the day's instruments, makes
  \<open>add_operation\<close> raise ValueError; and when every annotation is in order it succeeds.
\<close>

theorem add_operation_fixed_rate_annotations:
  "(fixed_rate_instrument 2 = Inr ''JGBs: FR 1-3y'' \<and> fixed_rate_instrument 5 = Inr ''JGBs: FR 3-5y'' \<and>
    fixed_rate_instrument 10 = Inr ''JGBs: FR 5-10y'' \<and> fixed_rate_instrument 20 = Inr ''JGBs: FR 10-25y'')
   \<and> (maturity \<notin> {2, 5, 10, 20} \<longrightarrow>
        fixed_rate_instrument maturity = Inl (ValueError ''Unrecognized fixed rate operation maturity''))
   \<and> (add_operation parse curdate df_data (Some df_notes) = Inr new_op \<longrightarrow>
        (\<forall>n\<in>set df_notes. \<exists>instrument.
            fixed_rate_instrument (Maturity n) = Inr instrument \<and>
            instrument \<in> set (map Instrument_col df_data) \<and>
            TransactionRate new_op instrument =
              Some (Rate_col (last (filter (\<lambda>m. Maturity m = Maturity n) df_notes)))))
   \<and> (add_rows parse (Operation_init curdate) df_data = Inr op0 \<longrightarrow>
        (\<exists>n\<in>set df_notes. \<forall>instrument. fixed_rate_instrument (Maturity n) = Inr instrument \<longrightarrow>
            instrument \<notin> set (map Instrument_col df_data)) \<longrightarrow>
        add_operation parse curdate df_data (Some df_notes) =
          Inl (ValueError ''Unrecognized fixed rate operation maturity''))
   \<and> (add_rows parse (Operation_init curdate) df_data = Inr op0 \<longrightarrow>
        (\<forall>n\<in>set df_notes. \<exists>instrument. fixed_rate_instrument (Maturity n) = Inr instrument \<and>
            instrument \<in> set (map Instrument_col df_data)) \<longrightarrow>
        (\<exists>new_op. add_operation parse curdate df_data (Some df_notes) = Inr new_op))"
proof (intro conjI impI)
  show "fixed_rate_instrument 2 = Inr ''JGBs: FR 1-3y''" "fixed_rate_instrument 5 = Inr ''JGBs: FR 3-5y''"
    "fixed_rate_instrument 10 = Inr ''JGBs: FR 5-10y''" "fixed_rate_instrument 20 = Inr ''JGBs: FR 10-25y''"
    by (simp_all add: fixed_rate_instrument_def)
next
  assume "maturity \<notin> {2, 5, 10, 20}"
  then show "fixed_rate_instrument maturity = Inl (ValueError ''Unrecognized fixed rate operation maturity'')"
    by (simp add: fixed_rate_instrument_def)
next
  assume ok: "add_operation parse curdate df_data (Some df_notes) = Inr new_op"
  then obtain op1 where op1: "add_rows parse (Operation_init curdate) df_data = Inr op1"
    and an: "add_notes op1 df_notes = Inr new_op"
    by (auto simp: add_operation_def split: sum.splits)
  have names: "Instruments op1 = map Instrument_col df_data"
    using Instruments_add_rows[OF op1] by (simp add: Instruments_def Operation_init_def)
  have all: "\<forall>n\<in>set df_notes. (\<exists>nm. fixed_rate_instrument (Maturity n) = Inr nm \<and> nm \<in> set (Instruments op1))"
  proof (rule ccontr)
    assume "\<not> (\<forall>n\<in>set df_notes. (\<exists>nm. fixed_rate_instrument (Maturity n) = Inr nm \<and> nm \<in> set (Instruments op1)))"
    then have "\<exists>n\<in>set df_notes. \<not> (\<exists>nm. fixed_rate_instrument (Maturity n) = Inr nm \<and> nm \<in> set (Instruments op1))" by blast
    from add_notes_fail[OF this] an show False by simp
  qed
  from add_notes_ok[OF all] an have rates:
    "\<forall>nm. TransactionRate new_op nm =
        (case filter (\<lambda>m. fixed_rate_instrument (Maturity m) = Inr nm) df_notes of
           [] \<Rightarrow> TransactionRate op1 nm
         | l \<Rightarrow> Some (Rate_col (last l)))" by auto
  show "\<forall>n\<in>set df_notes. \<exists>instrument.
            fixed_rate_instrument (Maturity n) = Inr instrument \<and>
            instrument \<in> set (map Instrument_col df_data) \<and>
            TransactionRate new_op instrument =
              Some (Rate_col (last (filter (\<lambda>m. Maturity m = Maturity n) df_notes)))"
  proof
    fix n assume n: "n \<in> set df_notes"
    with all names obtain nm where nm: "fixed_rate_instrument (Maturity n) = Inr nm"
      "nm \<in> set (map Instrument_col df_data)" by auto
    have same: "filter (\<lambda>m. fixed_rate_instrument (Maturity m) = Inr nm) df_notes =
                filter (\<lambda>m. Maturity m = Maturity n) df_notes"
      using fixed_rate_instrument_inj[OF nm(1)] by simp
    have "filter (\<lambda>m. Maturity m = Maturity n) df_notes \<noteq> []"
      using n by (auto simp: filter_empty_conv)
    with rates[rule_format, of nm] same
    have "TransactionRate new_op nm = Some (Rate_col (last (filter (\<lambda>m. Maturity m = Maturity n) df_notes)))"
      by (auto split: list.splits)
    with nm show "\<exists>instrument.
            fixed_rate_instrument (Maturity n) = Inr instrument \<and>
            instrument \<in> set (map Instrument_col df_data) \<and>
            TransactionRate new_op instrument =
              Some (Rate_col (last (filter (\<lambda>m. Maturity m = Maturity n) df_notes)))" by blast
  qed
next
  assume op0: "add_rows parse (Operation_init curdate) df_data = Inr op0"
    and bad: "\<exists>n\<in>set df_notes. \<forall>instrument. fixed_rate_instrument (Maturity n) = Inr instrument \<longrightarrow>
            instrument \<notin> set (map Instrument_col df_data)"
  have names: "Instruments op0 = map Instrument_col df_data"
    using Instruments_add_rows[OF op0] by (simp add: Instruments_def Operation_init_def)
  from bad have "\<exists>n\<in>set df_notes. \<not> (\<exists>nm. fixed_rate_instrument (Maturity n) = Inr nm \<and> nm \<in> set (Instruments op0))" unfolding names by blast
  from add_notes_fail[OF this] op0
  show "add_operation parse curdate df_data (Some df_notes) =
          Inl (ValueError ''Unrecognized fixed rate operation maturity'')"
    by (simp add: add_operation_def)
next
  assume op0: "add_rows parse (Operation_init curdate) df_data = Inr op0"
    and good: "\<forall>n\<in>set df_notes. \<exists>instrument. fixed_rate_instrument (Maturity n) = Inr instrument \<and>
            instrument \<in> set (map Instrument_col df_data)"
  have names: "Instruments op0 = map Instrument_col df_data"
    using Instruments_add_rows[OF op0] by (simp add: Instruments_def Operation_init_def)
  from good have "\<forall>n\<in>set df_notes. (\<exists>nm. fixed_rate_instrument (Maturity n) = Inr nm \<and> nm \<in> set (Instruments op0))" unfolding names by blast
  from add_notes_ok[OF this] op0
  show "\<exists>new_op. add_operation parse curdate df_data (Some df_notes) = Inr new_op"
    by (auto simp: add_operation_def)
qed

theorem add_operation_fixed_rate_annotations_witness:
  "fixed_rate_instrument 7 = Inl (ValueError ''Unrecognized fixed rate operation maturity'')
   \<and> (\<exists>new_op.
        add_operation (\<lambda>s. None) (2023, 2, 20)
          [\<lparr>Date_col = (2023, 2, 20), Instrument_col = ''JGBs: FR 5-10y'', Competitive_Bids = 0,
            Successful_Bids = 150, Successful_Yield = YNum 0\<rparr>]
          (Some [\<lparr>Maturity = 10, Rate_col = 1 / 2\<rparr>]) = Inr new_op
        \<and> TransactionRate new_op ''JGBs: FR 5-10y'' = Some (1 / 2))
   \<and> add_operation (\<lambda>s. None) (2023, 2, 20)
          [\<lparr>Date_col = (2023, 2, 20), Instrument_col = ''JGBs: FR 5-10y'', Competitive_Bids = 0,
            Successful_Bids = 150, Successful_Yield = YNum 0\<rparr>]
          (Some [\<lparr>Maturity = 5, Rate_col = 1 / 2\<rparr>])
        = Inl (ValueError ''Unrecognized fixed rate operation maturity'')"
proof -
  let ?parse = "\<lambda>s::string. None::real option"
  let ?rows = "[\<lparr>Date_col = (2023, 2, 20), Instrument_col = ''JGBs: FR 5-10y'', Competitive_Bids = 0,
            Successful_Bids = 150, Successful_Yield = YNum 0\<rparr>]"
  let ?good = "[\<lparr>Maturity = 10, Rate_col = 1 / 2\<rparr>]"
  let ?orphan = "[\<lparr>Maturity = 5, Rate_col = 1 / 2\<rparr>]"
  obtain op0 where op0: "add_rows ?parse (Operation_init (2023, 2, 20)) ?rows = Inr op0"
    by (simp add: py_float_def AddTransaction_def Operation_init_def)
  have good: "\<forall>n\<in>set ?good. \<exists>instrument. fixed_rate_instrument (Maturity n) = Inr instrument \<and>
            instrument \<in> set (map Instrument_col ?rows)"
    by (simp add: fixed_rate_instrument_def)
  have orphan: "\<exists>n\<in>set ?orphan. \<forall>instrument. fixed_rate_instrument (Maturity n) = Inr instrument \<longrightarrow>
            instrument \<notin> set (map Instrument_col ?rows)"
    by (simp add: fixed_rate_instrument_def)
  note good_case = add_operation_fixed_rate_annotations
    [of 7 ?parse "(2023, 2, 20)" ?rows ?good _ op0]
  note orphan_case = add_operation_fixed_rate_annotations
    [of 7 ?parse "(2023, 2, 20)" ?rows ?orphan _ op0]
  from good_case op0 good obtain new_op where
    new_op: "add_operation ?parse (2023, 2, 20) ?rows (Some ?good) = Inr new_op" by blast
  from add_operation_fixed_rate_annotations
    [of 7 ?parse "(2023, 2, 20)" ?rows ?good new_op op0] new_op
  have "TransactionRate new_op ''JGBs: FR 5-10y'' = Some (1 / 2)"
    by (simp add: fixed_rate_instrument_def)
  moreover have "fixed_rate_instrument 7 = Inl (ValueError ''Unrecognized fixed rate operation maturity'')"
    using good_case by simp
  moreover have "add_operation ?parse (2023, 2, 20) ?rows (Some ?orphan)
        = Inl (ValueError ''Unrecognized fixed rate operation maturity'')"
    using orphan_case op0 orphan by blast
  ultimately show ?thesis using new_op by blast
qed

section \<open>Properties of persistence\<close>








section \<open>Properties of the chart data\<close>

lemma traverse_length: "traverse f xs = Inr ys \<Longrightarrow> length ys = length xs"
  by (induction xs arbitrary: ys) (auto split: sum.splits)

lemma traverse_all:
  "traverse f xs = Inr ys \<Longrightarrow> \<forall>(x, y)\<in>set (zip xs ys). f x = Inr y"
  by (induction xs arbitrary: ys) (auto split: sum.splits)

lemma traverse_map_Inr: "traverse (\<lambda>x. Inr (g x)) xs = Inr (map g xs)"
  by (induction xs) auto

lemma map_of_add_columns:
  "map_of (add_columns df cols) k =
     (case map_of (rev cols) k of None \<Rightarrow> map_of df k | Some v \<Rightarrow> Some v)"
proof (induction cols arbitrary: df)
  case Nil
  then show ?case by simp
next
  case (Cons c cols)
  obtain i v where c: "c = (i, v)" by (cases c)
  show ?case
    by (simp add: c Cons.IH update_conv map_add_def split: option.splits)
qed

lemma map_of_add_columns_other:
  "k \<notin> fst ` set cols \<Longrightarrow> map_of (add_columns df cols) k = map_of df k"
proof -
  assume "k \<notin> fst ` set cols"
  then have "map_of (rev cols) k = None"
    by (simp add: map_of_eq_None_iff)
  then show ?thesis by (simp add: map_of_add_columns)
qed

lemma traverse_month_start_dates:
  "traverse month_start (map DateCell ds) = Inr (map (\<lambda>(y, m, d). (y, m, 1)) ds)"
  by (induction ds) (auto simp: month_start_def)

lemma traverse_month_start_no_dates:
  "traverse month_start cs = Inr ms \<Longrightarrow> \<forall>c\<in>set cs. \<forall>d. c \<noteq> DateCell d \<Longrightarrow> cs = []"
  by (cases cs) (auto simp: month_start_def split: cell.splits sum.splits)

lemma instrument_values_cells:
  "instrument_values rate ops inst = Inr vals \<Longrightarrow>
   length vals = length ops \<and> (\<forall>c\<in>set vals. \<forall>d. c \<noteq> DateCell d)"
proof -
  have tv: "\<And>f vals. traverse (\<lambda>op. case f op of Inl e \<Rightarrow> Inl e | Inr v \<Rightarrow> Inr (NumCell v)) ops = Inr vals
            \<Longrightarrow> \<forall>c\<in>set vals. \<forall>d. c \<noteq> DateCell d"
  proof -
    fix f :: "operation \<Rightarrow> error + real" and vals
    show "traverse (\<lambda>op. case f op of Inl e \<Rightarrow> Inl e | Inr v \<Rightarrow> Inr (NumCell v)) ops = Inr vals
            \<Longrightarrow> \<forall>c\<in>set vals. \<forall>d. c \<noteq> DateCell d"
      by (induction ops arbitrary: vals) (fastforce split: sum.splits)+
  qed
  assume a: "instrument_values rate ops inst = Inr vals"
  show ?thesis
  proof (cases rate)
    case True
    with a show ?thesis
      by (auto simp: instrument_values_def split: option.splits)
  next
    case False
    with a show ?thesis
      using tv traverse_length
      by (auto simp: instrument_values_def split: if_splits)
  qed
qed

lemma groupby_Date_axis:
  "groupby_Date agg dates columns = Inr df \<Longrightarrow>
   map_of df ''Date'' = Some (map DateCell (sort (remdups dates)))"
  by (auto simp: groupby_Date_def Let_def split: sum.splits)



text \<open>
  C10, as the claim states it, fails for a monthly query: the one Operation of
  15 February 2023 trades a requested instrument inside the window 10 to 28 February,
  and the output's only date is 1 February 2023, the start of the month, which is not a
  date on which anything traded (and lies before the window).
\<close>

theorem get_chart_data_monthly_axis_counterexample:
  "get_chart_data (\<lambda>cells. Inr NoneCell)
     [\<lparr>Date = (2023, 2, 15),
       Transactions = [(Transaction_init ''JGBs: 5-10y'' ''JPY'' 100)
                         \<lparr>Rate := Some 0, SuccessfulBids := Some 200\<rparr>]\<rparr>]
     [''JGBs: 5-10y''] (2023, 2, 10) (2023, 2, 28) False True
   = Inr [(''Date'', [DateCell (2023, 2, 1)]), (''JGBs: 5-10y'', [NumCell 20])]"
  by (simp add: get_chart_data_def inst_filter_def instrument_values_def TransactionValue_def
      Transaction_init_def Instruments_def bid_value_def month_start_def groupby_Date_def
      group_sum_def)

text \<open>
  C10, amended. A query works on the Operations whose date lies in the window and that
  hold at least one instrument of the filter (the requested instruments, with the JGB
  names added when \<open>All\<close> is requested); every other Operation is left out and gets no
  row. When the query returns a table: for a daily query (no instrument is itself named
  \<open>Date\<close>) the date column is exactly the dates of those Operations, in order; for a
  monthly query the date column is the ascending list of the distinct month starts of
  those dates.
\<close>

theorem get_chart_data_date_axis:
  assumes "get_chart_data group_mean operations instruments start_date end_date rate monthly = Inr df"
  shows "(\<not> monthly \<longrightarrow> ''Date'' \<notin> set instruments \<longrightarrow>
            map_of df ''Date'' =
              Some (map DateCell (map Date
                (filter (\<lambda>op. start_date \<le> Date op \<and> Date op \<le> end_date \<and>
                               (\<exists>inst\<in>set (Instruments op). inst \<in> inst_filter instruments))
                   operations))))
       \<and> (monthly \<longrightarrow>
            map_of df ''Date'' =
              Some (map DateCell (sort (remdups (map (\<lambda>(y, m, d). (y, m, 1)) (map Date
                (filter (\<lambda>op. start_date \<le> Date op \<and> Date op \<le> end_date \<and>
                               (\<exists>inst\<in>set (Instruments op). inst \<in> inst_filter instruments))
                   operations)))))))"
proof -
  let ?rate = "if ''All'' \<in> set instruments then False else rate"
  let ?ops = "filter (\<lambda>op. (Date op \<ge> start_date \<and> Date op \<le> end_date) \<and>
                              list_ex (\<lambda>inst. inst \<in> inst_filter instruments) (Instruments op))
                  operations"
  have sel: "?ops = filter (\<lambda>op. start_date \<le> Date op \<and> Date op \<le> end_date \<and>
                               (\<exists>inst\<in>set (Instruments op). inst \<in> inst_filter instruments))
                   operations"
    by (simp add: list_ex_iff)
  from assms obtain ops_values where
    vals: "traverse (instrument_values ?rate ?ops) instruments = Inr ops_values"
    by (auto simp: get_chart_data_def Let_def split: sum.splits)
  let ?df = "add_columns [(''Date'', map DateCell (map Date ?ops))] (zip instruments ops_values)"
  have len: "length ops_values = length instruments"
    using traverse_length[OF vals] .
  show ?thesis
  proof (intro conjI impI)
    assume daily: "\<not> monthly" and nodate: "''Date'' \<notin> set instruments"
    from assms vals daily have df: "df = ?df"
      by (simp add: get_chart_data_def Let_def)
    have "''Date'' \<notin> fst ` set (zip instruments ops_values)"
      using nodate by (auto dest: set_zip_leftD)
    from map_of_add_columns_other[OF this]
    have "map_of ?df ''Date'' = Some (map DateCell (map Date ?ops))"
      by simp
    then show "map_of df ''Date'' =
              Some (map DateCell (map Date
                (filter (\<lambda>op. start_date \<le> Date op \<and> Date op \<le> end_date \<and>
                               (\<exists>inst\<in>set (Instruments op). inst \<in> inst_filter instruments))
                   operations)))"
      unfolding df sel .
  next
    assume monthly: monthly
    from assms vals monthly obtain date_column months where
      col: "map_of ?df ''Date'' = Some date_column"
      and ms: "traverse month_start date_column = Inr months"
      and grp: "groupby_Date (if ?rate then group_mean else group_sum) months
                  (AList.delete ''Date'' ?df) = Inr df"
      by (auto simp: get_chart_data_def Let_def split: option.splits sum.splits)
    have months: "months = map (\<lambda>(y, m, d). (y, m, 1)) (map Date ?ops)"
    proof (cases "''Date'' \<in> set instruments")
      case False
      then have "''Date'' \<notin> fst ` set (zip instruments ops_values)"
        by (auto dest: set_zip_leftD)
      from map_of_add_columns_other[OF this] col
      have "date_column = map DateCell (map Date ?ops)" by simp
      with ms traverse_month_start_dates[of "map Date ?ops"] show ?thesis
        by (simp only: sum.inject)
    next
      case True
      then have "''Date'' \<in> fst ` set (zip instruments ops_values)"
        using len by (metis map_fst_zip set_map)
      then have "''Date'' \<in> fst ` set (rev (zip instruments ops_values))" by simp
      then obtain v where v: "map_of (rev (zip instruments ops_values)) ''Date'' = Some v"
        by (metis map_of_eq_None_iff not_Some_eq)
      with col have dc: "date_column = v" by (simp add: map_of_add_columns)
      from v have "(''Date'', v) \<in> set (zip instruments ops_values)"
        using map_of_SomeD by fastforce
      with traverse_all[OF vals] have "instrument_values ?rate ?ops ''Date'' = Inr v"
        by auto
      from instrument_values_cells[OF this]
      have cells: "length v = length ?ops" "\<forall>c\<in>set v. \<forall>d. c \<noteq> DateCell d" by auto
      from traverse_month_start_no_dates[OF ms[unfolded dc] cells(2)] have "v = []" .
      with cells(1) have "?ops = []" by simp
      moreover from ms dc \<open>v = []\<close> have "months = []" by simp
      ultimately show ?thesis by simp
    qed
    from groupby_Date_axis[OF grp] show "map_of df ''Date'' =
              Some (map DateCell (sort (remdups (map (\<lambda>(y, m, d). (y, m, 1)) (map Date
                (filter (\<lambda>op. start_date \<le> Date op \<and> Date op \<le> end_date \<and>
                               (\<exists>inst\<in>set (Instruments op). inst \<in> inst_filter instruments))
                   operations))))))"
      unfolding months sel .
  qed
qed

text \<open>
  Three Operations in February 2023: the first trades a requested instrument, the second
  only an instrument nobody asked for, the third a requested one again. The daily table
  has the first and the third date and no row for the second; the monthly table has the
  one month start, with the sum of the two days.
\<close>

theorem get_chart_data_date_axis_witness:
  "map_of [(''Date'', [DateCell (2023, 2, 15), DateCell (2023, 2, 17)]),
           (''JGBs: 5-10y'', [NumCell 20, NumCell 5])] ''Date''
     = Some [DateCell (2023, 2, 15), DateCell (2023, 2, 17)]
   \<and> get_chart_data (\<lambda>cells. Inr NoneCell)
     [\<lparr>Date = (2023, 2, 15),
       Transactions = [(Transaction_init ''JGBs: 5-10y'' ''JPY'' 100)
                         \<lparr>Rate := Some 0, SuccessfulBids := Some 200\<rparr>]\<rparr>,
      \<lparr>Date = (2023, 2, 16),
       Transactions = [(Transaction_init ''CP'' ''JPY'' 100)
                         \<lparr>Rate := Some 0, SuccessfulBids := Some 70\<rparr>]\<rparr>,
      \<lparr>Date = (2023, 2, 17),
       Transactions = [(Transaction_init ''JGBs: 5-10y'' ''JPY'' 100)
                         \<lparr>Rate := Some 0, SuccessfulBids := Some 50\<rparr>]\<rparr>]
     [''JGBs: 5-10y''] (2023, 2, 10) (2023, 2, 28) False False
     = Inr [(''Date'', [DateCell (2023, 2, 15), DateCell (2023, 2, 17)]),
            (''JGBs: 5-10y'', [NumCell 20, NumCell 5])]
   \<and> map_of [(''Date'', [DateCell (2023, 2, 1)]), (''JGBs: 5-10y'', [NumCell 25])] ''Date''
     = Some [DateCell (2023, 2, 1)]
   \<and> get_chart_data (\<lambda>cells. Inr NoneCell)
     [\<lparr>Date = (2023, 2, 15),
       Transactions = [(Transaction_init ''JGBs: 5-10y'' ''JPY'' 100)
                         \<lparr>Rate := Some 0, SuccessfulBids := Some 200\<rparr>]\<rparr>,
      \<lparr>Date = (2023, 2, 16),
       Transactions = [(Transaction_init ''CP'' ''JPY'' 100)
                         \<lparr>Rate := Some 0, SuccessfulBids := Some 70\<rparr>]\<rparr>,
      \<lparr>Date = (2023, 2, 17),
       Transactions = [(Transaction_init ''JGBs: 5-10y'' ''JPY'' 100)
                         \<lparr>Rate := Some 0, SuccessfulBids := Some 50\<rparr>]\<rparr>]
     [''JGBs: 5-10y''] (2023, 2, 10) (2023, 2, 28) False True
     = Inr [(''Date'', [DateCell (2023, 2, 1)]), (''JGBs: 5-10y'', [NumCell 25])]"
proof -
  let ?ops = "[\<lparr>Date = (2023, 2, 15),
       Transactions = [(Transaction_init ''JGBs: 5-10y'' ''JPY'' 100)
                         \<lparr>Rate := Some 0, SuccessfulBids := Some 200\<rparr>]\<rparr>,
      \<lparr>Date = (2023, 2, 16),
       Transactions = [(Transaction_init ''CP'' ''JPY'' 100)
                         \<lparr>Rate := Some 0, SuccessfulBids := Some 70\<rparr>]\<rparr>,
      \<lparr>Date = (2023, 2, 17),
       Transactions = [(Transaction_init ''JGBs: 5-10y'' ''JPY'' 100)
                         \<lparr>Rate := Some 0, SuccessfulBids := Some 50\<rparr>]\<rparr>]"
  let ?daily = "[(''Date'', [DateCell (2023, 2, 15), DateCell (2023, 2, 17)]),
          (''JGBs: 5-10y'', [NumCell 20, NumCell 5])]"
  let ?monthly = "[(''Date'', [DateCell (2023, 2, 1)]), (''JGBs: 5-10y'', [NumCell 25])]"
  have run: "get_chart_data (\<lambda>cells. Inr NoneCell) ?ops [''JGBs: 5-10y'']
               (2023, 2, 10) (2023, 2, 28) False False = Inr ?daily"
    by (simp add: get_chart_data_def inst_filter_def instrument_values_def TransactionValue_def
        Transaction_init_def Instruments_def bid_value_def)
  have run_monthly: "get_chart_data (\<lambda>cells. Inr NoneCell) ?ops [''JGBs: 5-10y'']
               (2023, 2, 10) (2023, 2, 28) False True = Inr ?monthly"
    by (simp add: get_chart_data_def inst_filter_def instrument_values_def TransactionValue_def
        Transaction_init_def Instruments_def bid_value_def month_start_def groupby_Date_def
        group_sum_def)
  from get_chart_data_date_axis[OF run]
  have "map_of ?daily ''Date'' = Some [DateCell (2023, 2, 15), DateCell (2023, 2, 17)]"
    by (simp add: inst_filter_def Instruments_def Transaction_init_def)
  moreover from get_chart_data_date_axis[OF run_monthly]
  have "map_of ?monthly ''Date'' = Some [DateCell (2023, 2, 1)]"
    by (simp add: inst_filter_def Instruments_def Transaction_init_def)
  ultimately show ?thesis using run run_monthly by blast
qed

section \<open>Properties of the instrument classifier\<close>

text \<open>The lower-case form of a character, read off its bits (for evaluation).\<close>

lemma lower_Char [code]:
  "lower (Char b0 b1 b2 b3 b4 b5 b6 b7) =
     (if \<not> b7 \<and> b6 \<and> \<not> b5 \<and> (b0 \<or> b1 \<or> b2 \<or> b3 \<or> b4) \<and> \<not> (b4 \<and> b3 \<and> (b2 \<or> (b1 \<and> b0)))
      then Char b0 b1 b2 b3 b4 True b6 b7
      else Char b0 b1 b2 b3 b4 b5 b6 b7)"
  by (cases b5; cases b6; cases b7; simp add: lower_def;
      cases b0; cases b1; cases b2; cases b3; cases b4; simp)

text \<open>
  A pattern that starts with \<open>.+\<close>, on a text \<open>pre @ t\<close>: when the rest of the pattern
  matches at \<open>t\<close> and at no later position, \<open>.+\<close> ends up taking exactly \<open>pre\<close>.
\<close>

lemma dot_plus_append:
  "pre \<noteq> [] \<Longrightarrow> CHR 0x0A \<notin> set pre \<Longrightarrow> \<exists>later. dot_plus (pre @ t) = dot_plus t @ t # later"
proof (induction pre)
  case Nil
  then show ?case by simp
next
  case (Cons c cs)
  show ?case
  proof (cases cs)
    case Nil
    with Cons.prems show ?thesis by auto
  next
    case (Cons c' cs')
    with Cons.IH Cons.prems obtain later where "dot_plus (cs @ t) = dot_plus t @ t # later"
      by auto
    with Cons.prems show ?thesis by auto
  qed
qed

lemma re_match_after_prefix:
  assumes "pre \<noteq> []" and "CHR 0x0A \<notin> set pre"
    and later: "list_all (\<lambda>s. matches ic R (\<lambda>n. None, s) = []) (dot_plus t)"
    and here: "re_match ic R t = Some g"
  shows "re_match ic (Seq DotPlus R) (pre @ t) = Some g"
proof -
  from dot_plus_append[OF assms(1,2)] obtain rest where
    dp: "dot_plus (pre @ t) = dot_plus t @ t # rest" by blast
  have "concat (map (matches ic R) (map (Pair (\<lambda>n. None)) (dot_plus t))) = []"
    using later by (induction "dot_plus t") (auto simp: list_all_iff)
  then have "matches ic (Seq DotPlus R) (\<lambda>n. None, pre @ t) =
          matches ic R (\<lambda>n. None, t) @ concat (map (matches ic R) (map (Pair (\<lambda>n. None)) rest))"
    by (simp add: dp)
  with here show ?thesis
    by (auto simp: re_match_def split: list.splits)
qed





text \<open>
  The maturity patterns match a name that says \<open>maturity of\<close> and then neither bound;
  \<open>get_short_name\<close> then raises TypeError, while concatenating the missing group, and
  not the error "not recognized".
\<close>

lemma get_short_name_no_bound:
  "get_short_name ''JGBs with a maturity of some years'' = Inl TypeError"
  by code_simp

text \<open>
  The three patterns that start with \<open>.+\<close>, on a name that ends with a fixed text:
  the fixed text is where the rest of the pattern matches, so the groups are those of
  the fixed text, whatever stands in front of it.
\<close>

lemma auction_5_10:
  assumes "pre \<noteq> []" and "CHR 0x0A \<notin> set pre"
  shows "\<exists>g. re_match True (maturity_rx False)
              (pre @ '' maturity of more than 5 years) up to 10 years)'') = Some g
             \<and> g 1 = Some ''5'' \<and> g 2 = Some ''10''"
proof -
  let ?R = "Seq (lit '' '') (Seq re_txt Eps)"
  let ?t = "'' maturity of more than 5 years) up to 10 years)''"
  have later: "list_all (\<lambda>s. matches True ?R (\<lambda>n. None, s) = []) (dot_plus ?t)"
    by code_simp
  have "case re_match True ?R ?t of None \<Rightarrow> False | Some g \<Rightarrow> g 1 = Some ''5'' \<and> g 2 = Some ''10''"
    by code_simp
  then obtain g where g: "re_match True ?R ?t = Some g" "g 1 = Some ''5''" "g 2 = Some ''10''"
    by (auto split: option.splits)
  from re_match_after_prefix[OF assms later g(1)] g(2,3) show ?thesis
    by (simp add: maturity_rx_def)
qed

lemma fixed_5_10:
  assumes "pre \<noteq> []" and "CHR 0x0A \<notin> set pre"
  shows "\<exists>g. re_match True (maturity_rx True)
              (pre @ '' (fixed-rate method) (residual maturity of more than 5 years) up to 10 years)'')
               = Some g
             \<and> g 1 = Some ''5'' \<and> g 2 = Some ''10''"
proof -
  let ?R = "Seq (lit '' '') (Seq (lit ''(fixed-rate method) '') (Seq DotPlus (Seq (lit '' '') (Seq re_txt Eps))))"
  let ?t = "'' (fixed-rate method) (residual maturity of more than 5 years) up to 10 years)''"
  have later: "list_all (\<lambda>s. matches True ?R (\<lambda>n. None, s) = []) (dot_plus ?t)"
    by code_simp
  have "case re_match True ?R ?t of None \<Rightarrow> False | Some g \<Rightarrow> g 1 = Some ''5'' \<and> g 2 = Some ''10''"
    by code_simp
  then obtain g where g: "re_match True ?R ?t = Some g" "g 1 = Some ''5''" "g 2 = Some ''10''"
    by (auto split: option.splits)
  from re_match_after_prefix[OF assms later g(1)] g(2,3) show ?thesis
    by (simp add: maturity_rx_def)
qed

lemma session_group:
  assumes "pre \<noteq> []" and "CHR 0x0A \<notin> set pre"
  shows "(\<exists>g. re_match True repo_rx
              (pre @ '' (Sales of JGSs under repurchase agreements) /offered in the morning/ T+1'')
               = Some g \<and> g 1 = Some ''morning'')
       \<and> (\<exists>g. re_match True repo_rx
              (pre @ '' (Sales of JGSs under repurchase agreements) /offered in the afternoon/ T+1'')
               = Some g \<and> g 1 = Some ''afternoon'')
       \<and> (\<exists>g. re_match True repo_rx
              (pre @ '' (Sales of JGSs under repurchase agreements) /offered in the evening/ T+1'')
               = Some g \<and> g 1 = Some ''evening'')"
proof -
  let ?R = "Seq (lit '' (Sales of JGSs under repurchase agreements) /offered in the '')
              (Seq (Grp 1 DotPlus) (Seq (lit ''/'') (Seq DotPlus Eps)))"
  let ?am = "'' (Sales of JGSs under repurchase agreements) /offered in the morning/ T+1''"
  let ?pm = "'' (Sales of JGSs under repurchase agreements) /offered in the afternoon/ T+1''"
  let ?ev = "'' (Sales of JGSs under repurchase agreements) /offered in the evening/ T+1''"
  have rx: "repo_rx = Seq DotPlus ?R"
    by (simp add: repo_rx_def)
  have l1: "list_all (\<lambda>s. matches True ?R (\<lambda>n. None, s) = []) (dot_plus ?am)"
    by code_simp
  have l2: "list_all (\<lambda>s. matches True ?R (\<lambda>n. None, s) = []) (dot_plus ?pm)"
    by code_simp
  have l3: "list_all (\<lambda>s. matches True ?R (\<lambda>n. None, s) = []) (dot_plus ?ev)"
    by code_simp
  have "case re_match True ?R ?am of None \<Rightarrow> False | Some g \<Rightarrow> g 1 = Some ''morning''"
    by code_simp
  then obtain g1 where g1: "re_match True ?R ?am = Some g1" "g1 1 = Some ''morning''"
    by (auto split: option.splits)
  have "case re_match True ?R ?pm of None \<Rightarrow> False | Some g \<Rightarrow> g 1 = Some ''afternoon''"
    by code_simp
  then obtain g2 where g2: "re_match True ?R ?pm = Some g2" "g2 1 = Some ''afternoon''"
    by (auto split: option.splits)
  have "case re_match True ?R ?ev of None \<Rightarrow> False | Some g \<Rightarrow> g 1 = Some ''evening''"
    by code_simp
  then obtain g3 where g3: "re_match True ?R ?ev = Some g3" "g3 1 = Some ''evening''"
    by (auto split: option.splits)
  from re_match_after_prefix[OF assms l1 g1(1)] re_match_after_prefix[OF assms l2 g2(1)]
    re_match_after_prefix[OF assms l3 g3(1)] g1(2) g2(2) g3(2)
  show ?thesis unfolding rx by blast
qed

text \<open>
  C4. \<open>Outright purchases of CP\<close> is classified as \<open>CP\<close>. A name that ends with the
  auction-method maturity phrase \<open>maturity of more than 5 years) up to 10 years)\<close> after
  any text on one line, that holds no key of \<open>searches\<close> and that is not a fixed-rate
  name, is classified as \<open>JGBs: 5-10y\<close>; the same phrase after \<open>(fixed-rate method)\<close> gives
  \<open>JGBs: FR 5-10y\<close>. A securities-lending name (one that no earlier rule takes) gives
  \<open>Sec. lending: am\<close> when it says \<open>offered in the morning\<close> and \<open>Sec. lending: pm\<close> when it
  says \<open>afternoon\<close>; and whenever the lending pattern matches with any other session
  text, \<open>get_short_name\<close> raises ValueError.
\<close>

theorem get_short_name_scenarios:
  "get_short_name ''Outright purchases of CP'' = Inr ''CP''
   \<and> (pre \<noteq> [] \<longrightarrow> CHR 0x0A \<notin> set pre \<longrightarrow>
        first_found searches (pre @ '' maturity of more than 5 years) up to 10 years)'') = None \<longrightarrow>
        re_match True (maturity_rx True) (pre @ '' maturity of more than 5 years) up to 10 years)'') = None \<longrightarrow>
        get_short_name (pre @ '' maturity of more than 5 years) up to 10 years)'') = Inr ''JGBs: 5-10y'')
   \<and> (pre \<noteq> [] \<longrightarrow> CHR 0x0A \<notin> set pre \<longrightarrow>
        first_found searches
          (pre @ '' (fixed-rate method) (residual maturity of more than 5 years) up to 10 years)'') = None \<longrightarrow>
        get_short_name
          (pre @ '' (fixed-rate method) (residual maturity of more than 5 years) up to 10 years)'')
          = Inr ''JGBs: FR 5-10y'')
   \<and> (pre \<noteq> [] \<longrightarrow> CHR 0x0A \<notin> set pre \<longrightarrow>
        first_found searches
          (pre @ '' (Sales of JGSs under repurchase agreements) /offered in the morning/ T+1'') = None \<longrightarrow>
        re_match True (maturity_rx True)
          (pre @ '' (Sales of JGSs under repurchase agreements) /offered in the morning/ T+1'') = None \<longrightarrow>
        re_match True (maturity_rx False)
          (pre @ '' (Sales of JGSs under repurchase agreements) /offered in the morning/ T+1'') = None \<longrightarrow>
        get_short_name
          (pre @ '' (Sales of JGSs under repurchase agreements) /offered in the morning/ T+1'')
          = Inr ''Sec. lending: am'')
   \<and> (pre \<noteq> [] \<longrightarrow> CHR 0x0A \<notin> set pre \<longrightarrow>
        first_found searches
          (pre @ '' (Sales of JGSs under repurchase agreements) /offered in the afternoon/ T+1'') = None \<longrightarrow>
        re_match True (maturity_rx True)
          (pre @ '' (Sales of JGSs under repurchase agreements) /offered in the afternoon/ T+1'') = None \<longrightarrow>
        re_match True (maturity_rx False)
          (pre @ '' (Sales of JGSs under repurchase agreements) /offered in the afternoon/ T+1'') = None \<longrightarrow>
        get_short_name
          (pre @ '' (Sales of JGSs under repurchase agreements) /offered in the afternoon/ T+1'')
          = Inr ''Sec. lending: pm'')
   \<and> (first_found searches long_name = None \<longrightarrow>
        re_match True (maturity_rx True) long_name = None \<longrightarrow>
        re_match True (maturity_rx False) long_name = None \<longrightarrow>
        re_match True repo_rx long_name = Some g \<longrightarrow>
        g 1 \<noteq> Some ''morning'' \<longrightarrow> g 1 \<noteq> Some ''afternoon'' \<longrightarrow>
        get_short_name long_name = Inl (ValueError ''Expected morning / afternoon flag not found''))"
proof (intro conjI impI)
  show "get_short_name ''Outright purchases of CP'' = Inr ''CP''"
    by code_simp
next
  let ?d = "pre @ '' maturity of more than 5 years) up to 10 years)''"
  assume pre: "pre \<noteq> []" "CHR 0x0A \<notin> set pre"
    and no: "first_found searches ?d = None" "re_match True (maturity_rx True) ?d = None"
  from auction_5_10[OF pre] obtain g where
    "re_match True (maturity_rx False) ?d = Some g" "g 1 = Some ''5''" "g 2 = Some ''10''"
    by blast
  with no show "get_short_name ?d = Inr ''JGBs: 5-10y''"
    by (simp add: get_short_name_def maturity_name_def out_txt_def)
next
  let ?d = "pre @ '' (fixed-rate method) (residual maturity of more than 5 years) up to 10 years)''"
  assume pre: "pre \<noteq> []" "CHR 0x0A \<notin> set pre"
    and no: "first_found searches ?d = None"
  from fixed_5_10[OF pre] obtain g where
    "re_match True (maturity_rx True) ?d = Some g" "g 1 = Some ''5''" "g 2 = Some ''10''"
    by blast
  with no show "get_short_name ?d = Inr ''JGBs: FR 5-10y''"
    by (simp add: get_short_name_def maturity_name_def out_txt_def)
next
  let ?d = "pre @ '' (Sales of JGSs under repurchase agreements) /offered in the morning/ T+1''"
  assume pre: "pre \<noteq> []" "CHR 0x0A \<notin> set pre"
    and no: "first_found searches ?d = None" "re_match True (maturity_rx True) ?d = None"
      "re_match True (maturity_rx False) ?d = None"
  from session_group[OF pre] obtain g where
    "re_match True repo_rx ?d = Some g" "g 1 = Some ''morning''"
    by blast
  with no show "get_short_name ?d = Inr ''Sec. lending: am''"
    by (simp add: get_short_name_def)
next
  let ?d = "pre @ '' (Sales of JGSs under repurchase agreements) /offered in the afternoon/ T+1''"
  assume pre: "pre \<noteq> []" "CHR 0x0A \<notin> set pre"
    and no: "first_found searches ?d = None" "re_match True (maturity_rx True) ?d = None"
      "re_match True (maturity_rx False) ?d = None"
  from session_group[OF pre] obtain g where
    "re_match True repo_rx ?d = Some g" "g 1 = Some ''afternoon''"
    by blast
  with no show "get_short_name ?d = Inr ''Sec. lending: pm''"
    by (simp add: get_short_name_def)
next
  assume "first_found searches long_name = None"
    "re_match True (maturity_rx True) long_name = None"
    "re_match True (maturity_rx False) long_name = None"
    "re_match True repo_rx long_name = Some g"
    "g 1 \<noteq> Some ''morning''" "g 1 \<noteq> Some ''afternoon''"
  then show "get_short_name long_name = Inl (ValueError ''Expected morning / afternoon flag not found'')"
    by (simp add: get_short_name_def)
qed

text \<open>The scenarios on whole names, the last one with the session text \<open>evening\<close>.\<close>

theorem get_short_name_scenarios_witness:
  "get_short_name ''Outright purchases of JGBs (residual maturity of more than 5 years) up to 10 years)''
     = Inr ''JGBs: 5-10y''
   \<and> get_short_name
       ''Outright purchases of JGBs (fixed-rate method) (residual maturity of more than 5 years) up to 10 years)''
     = Inr ''JGBs: FR 5-10y''
   \<and> get_short_name
       ''Securities lending (Sales of JGSs under repurchase agreements) /offered in the morning/ T+1''
     = Inr ''Sec. lending: am''
   \<and> get_short_name
       ''Securities lending (Sales of JGSs under repurchase agreements) /offered in the afternoon/ T+1''
     = Inr ''Sec. lending: pm''
   \<and> get_short_name
       ''Securities lending (Sales of JGSs under repurchase agreements) /offered in the evening/ T+1''
     = Inl (ValueError ''Expected morning / afternoon flag not found'')"
proof -
  let ?a = "''Outright purchases of JGBs (residual maturity of more than 5 years) up to 10 years)''"
  let ?f = "''Outright purchases of JGBs (fixed-rate method) (residual maturity of more than 5 years) up to 10 years)''"
  let ?am = "''Securities lending (Sales of JGSs under repurchase agreements) /offered in the morning/ T+1''"
  let ?pm = "''Securities lending (Sales of JGSs under repurchase agreements) /offered in the afternoon/ T+1''"
  let ?ev = "''Securities lending (Sales of JGSs under repurchase agreements) /offered in the evening/ T+1''"
  have a: "first_found searches ?a = None \<and> re_match True (maturity_rx True) ?a = None"
    by code_simp
  have f: "first_found searches ?f = None"
    by code_simp
  have am: "first_found searches ?am = None \<and> re_match True (maturity_rx True) ?am = None
            \<and> re_match True (maturity_rx False) ?am = None"
    by code_simp
  have pm: "first_found searches ?pm = None \<and> re_match True (maturity_rx True) ?pm = None
            \<and> re_match True (maturity_rx False) ?pm = None"
    by code_simp
  have ev: "first_found searches ?ev = None \<and> re_match True (maturity_rx True) ?ev = None
            \<and> re_match True (maturity_rx False) ?ev = None"
    by code_simp
  have pre: "''Securities lending'' \<noteq> []" "CHR 0x0A \<notin> set ''Securities lending''"
    by simp_all
  from session_group[OF pre] obtain g where
    g: "re_match True repo_rx ?ev = Some g" "g 1 = Some ''evening''"
    by auto
  have "get_short_name ?a = Inr ''JGBs: 5-10y''"
    using get_short_name_scenarios[of "''Outright purchases of JGBs (residual''"] a by simp
  moreover have "get_short_name ?f = Inr ''JGBs: FR 5-10y''"
    using get_short_name_scenarios[of "''Outright purchases of JGBs''"] f by simp
  moreover have "get_short_name ?am = Inr ''Sec. lending: am''"
    using get_short_name_scenarios[of "''Securities lending''"] am by simp
  moreover have "get_short_name ?pm = Inr ''Sec. lending: pm''"
    using get_short_name_scenarios[of "''Securities lending''"] pm by simp
  moreover have "get_short_name ?ev = Inl (ValueError ''Expected morning / afternoon flag not found'')"
    using get_short_name_scenarios[of "''x''" ?ev g] ev g by simp
  ultimately show ?thesis by blast
qed

section \<open>Properties of the source normalizers\<close>

subsection \<open>Grouping and adding up\<close>











subsection \<open>One row per key, bids added up\<close>




subsection \<open>The normalized rows\<close>




text \<open>
  On the auction rows the sum of a group adds up the yield column as well: two raw rows
  of one instrument with yields 0.5 and 0.25 give a row with yield 0.75.
\<close>

lemma clean_up_data_adds_yields:
  "clean_up_data
     \<lparr>n_columns = 6, table_rows =
       [[StrV ''Outright purchases of CP'', IntV 300, IntV 100, NaNV, NaNV, FloatV (1 / 2)],
        [StrV ''Outright purchases of CP'', IntV 200, IntV 50, NaNV, NaNV, FloatV (1 / 4)]]\<rparr>
     (2023, 2, 20)
   = Inr [\<lparr>Date_col = (2023, 2, 20), Instrument_col = ''CP'', Competitive_Bids = 500,
           Successful_Bids = 150, Successful_Yield = YNum (3 / 4)\<rparr>]"
  by code_simp

subsection \<open>The second table of the release\<close>



end
